theory Spec2Isabelle
  imports Main
begin

section \<open>The vectorized sort node (vec/exec/vsort\_node.cpp)\<close>

text \<open>
  The theory embeds the member functions of \<open>VSortNode\<close>: \<open>partial_sort\<close>,
  \<open>sort_input\<close>, \<open>build_merge_tree\<close>, \<open>merge_sort_read\<close> and both overloads of
  \<open>get_next\<close>. A block is kept row-major (a list of rows, a row a list of nullable
  cells); the source keeps it column-major, which no statement below depends on.
  A C++ function that returns a \<open>Status\<close> and mutates the node becomes a function
  that returns the status together with the new node.
\<close>

subsection \<open>Blocks and status values\<close>

type_synonym Field = "int option"
type_synonym Row = "Field list"
type_synonym Block = "Row list"
type_synonym RowBatch = "Row list"

datatype Error =
    Cancelled
  | NotSupported string
  | ExpressionError
  | UpstreamError
  | QueryStateError
  | UndefinedBehaviour

datatype Status = OK | Err Error

definition rows :: "Block \<Rightarrow> nat" where
  "rows b = length b"

text \<open>
  \<open>std::move(block)\<close> move-constructs the new element of \<open>_sorted_blocks\<close> from
  \<open>block\<close>; the moved-from block is left without columns, so it has no rows.
\<close>

definition moved_from :: "Block" where
  "moved_from = []"

text \<open>
  Modelled from the spec: \<open>Block::skip_num_rows\<close> is not in the sources; the spec has the
  fast path "skip the first offset rows by slicing the single run".
\<close>

definition skip_num_rows :: "int \<Rightarrow> Block \<Rightarrow> Block" where
  "skip_num_rows n b = drop (nat n) b"

subsection \<open>Sort description and the row comparator\<close>

record SortColumnDescription =
  column_number :: int
  direction :: int
  nulls_direction :: int

type_synonym SortDescription = "SortColumnDescription list"

text \<open>
  \<open>_sort_description.resize(n)\<close> keeps the first \<open>n\<close> entries and value-initialises
  the new ones.
\<close>

definition default_description :: "SortColumnDescription" where
  "default_description = \<lparr>column_number = 0, direction = 0, nulls_direction = 0\<rparr>"

definition resize :: "nat \<Rightarrow> SortDescription \<Rightarrow> SortDescription" where
  "resize n d = take n d @ replicate (n - length d) default_description"

definition cell :: "Row \<Rightarrow> int \<Rightarrow> Field" where
  "cell r c = (if 0 \<le> c \<and> nat c < length r then r ! nat c else None)"

definition native_compare :: "int \<Rightarrow> int \<Rightarrow> int" where
  "native_compare a b = (if a < b then - 1 else if a = b then 0 else 1)"

text \<open>
  Modelled from the spec: the column comparator lives in the column classes, which are
  not in the sources. The spec, for a pair \<open>(a, b)\<close> at a key column: both non-null,
  \<open>native_compare(a, b) * direction\<close>; one null, the result follows \<open>nulls_direction\<close>,
  with one sign if \<open>a\<close> is the null and the opposite sign if \<open>b\<close> is; both null, 0 and
  the next key decides. The null result takes the factor \<open>direction\<close> as the non-null
  one does: only so does the encoding of section 3 (nulls first is the opposite sign of
  \<open>direction\<close>) put the nulls first under a descending key, as scenario 2 of section 8
  has it. A column number outside the row reads as null here.
\<close>

definition compare_key :: "SortColumnDescription \<Rightarrow> Row \<Rightarrow> Row \<Rightarrow> int" where
  "compare_key d a b =
     (case (cell a (column_number d), cell b (column_number d)) of
        (Some x, Some y) \<Rightarrow> native_compare x y * direction d
      | (None, Some y) \<Rightarrow> nulls_direction d * direction d
      | (Some x, None) \<Rightarrow> - (nulls_direction d * direction d)
      | (None, None) \<Rightarrow> 0)"

fun compare_rows :: "SortDescription \<Rightarrow> Row \<Rightarrow> Row \<Rightarrow> int" where
  "compare_rows [] a b = 0"
| "compare_rows (d # ds) a b =
     (if compare_key d a b \<noteq> 0 then compare_key d a b else compare_rows ds a b)"

definition non_decreasing :: "SortDescription \<Rightarrow> Block \<Rightarrow> bool" where
  "non_decreasing desc b = sorted_wrt (\<lambda>x y. compare_rows desc x y \<le> 0) b"

subsection \<open>The block sorter\<close>

fun insert_row :: "SortDescription \<Rightarrow> Row \<Rightarrow> Block \<Rightarrow> Block" where
  "insert_row desc r [] = [r]"
| "insert_row desc r (x # xs) =
     (if compare_rows desc r x \<le> 0 then r # x # xs else x # insert_row desc r xs)"

definition full_sort :: "SortDescription \<Rightarrow> Block \<Rightarrow> Block" where
  "full_sort desc b = foldr (insert_row desc) b []"

text \<open>
  Modelled from the spec: \<open>sort_block\<close> (vec/core/sort\_block.h) is not in the sources.
  The spec: the block's rows are permuted to sorted order; with a limit hint, given
  only when it is non-negative, the sorter may order the first \<open>limit_hint\<close> rows only,
  "rows beyond limit\_hint are not required to be sorted but the Block retains all
  rows". The arrangement of the rows beyond the hint is the parameter \<open>rest\<close>; the
  heap selection of \<open>std::partial_sort\<close> is one such arrangement.
\<close>

definition sort_block :: "(Block \<Rightarrow> Block) \<Rightarrow> Block \<Rightarrow> SortDescription \<Rightarrow> int \<Rightarrow> Block" where
  "sort_block rest block desc limit_hint =
     (if 0 \<le> limit_hint \<and> nat limit_hint < rows block
      then take (nat limit_hint) (full_sort desc block)
           @ rest (drop (nat limit_hint) (full_sort desc block))
      else full_sort desc block)"

subsection \<open>Collaborators of the node\<close>

text \<open>
  An expression context evaluates against a block and yields the index of its result
  column, or fails.
\<close>

type_synonym VExprContext = "Block \<Rightarrow> Error + int"

record SortExecExprs =
  need_materialize_tuple :: bool
  sort_tuple_slot_expr_ctxs :: "VExprContext list"
  lhs_ordering_expr_ctxs :: "VExprContext list"

record RuntimeState =
  is_cancelled :: bool
  query_state :: Status
  batch_size :: nat

text \<open>
  A cursor over one sorted block: \<open>SortCursorImpl\<close> holds the block's columns, the
  description, the current position and the row count. \<open>SortBlockCursor\<close> wraps one
  for the heap of admitted blocks.
\<close>

record SortCursorImpl =
  all_columns :: Block
  desc :: SortDescription
  pos :: nat
  cursor_rows :: nat

definition new_SortCursorImpl :: "Block \<Rightarrow> SortDescription \<Rightarrow> SortCursorImpl" where
  "new_SortCursorImpl b d = \<lparr>all_columns = b, desc = d, pos = 0, cursor_rows = rows b\<rparr>"

type_synonym SortBlockCursor = SortCursorImpl

text \<open>
  The constants of the header and the functions of classes that are not in the
  sources are parameters of the model: the two run thresholds, the byte size of a
  buffer, the arrangement the sorter leaves beyond its limit hint, and
  \<open>SortBlockCursor::totally_greater\<close>.
\<close>

record Params =
  BUFFERED_BLOCK_SIZE :: nat
  BUFFERED_BLOCK_BYTES :: nat
  allocated_bytes :: "Block \<Rightarrow> nat"
  rest_order :: "Block \<Rightarrow> Block"
  totally_greater :: "SortBlockCursor \<Rightarrow> SortBlockCursor \<Rightarrow> bool"

subsection \<open>The node\<close>

text \<open>
  Modelled from the spec: \<open>MutableBlock\<close> is not in the sources. The spec's run buffer
  has \<open>append\<close>, \<open>row_count\<close>, \<open>byte_size\<close> and \<open>extract\<close>, "move contents out as an
  immutable Block; reset buffer". In the source the extraction is \<open>to_block(0)\<close> at
  line 144, which moves the columns out, and the reset is the new \<open>MutableBlock\<close> of
  line 176; between the two the buffer is \<open>MovedOut\<close>.
\<close>

datatype MutableBlock = Columns Block | MovedOut

record VSortNode =
  offset :: int
  limit :: int
  num_rows_returned :: int
  num_rows_skipped :: int
  is_asc_order :: "bool list"
  nulls_first :: "bool list"
  vsort_exec_exprs :: SortExecExprs
  sort_description :: SortDescription
  unsorted_block :: MutableBlock
  total_mem_usage :: nat
  sorted_blocks :: "Block list"
  num_rows_in_block :: nat
  block_priority_queue :: "SortBlockCursor list"
  cursors :: "SortCursorImpl list"
  priority_queue :: "SortCursorImpl list"

subsection \<open>partial\_sort\<close>

text \<open>Lines 189-191: the loop over the slot expressions stops at the first error.\<close>

fun execute_all :: "VExprContext list \<Rightarrow> Block \<Rightarrow> Error + int list" where
  "execute_all [] block = Inr []"
| "execute_all (e # es) block =
     (case e block of
        Inl err \<Rightarrow> Inl err
      | Inr c \<Rightarrow> (case execute_all es block of
                    Inl err \<Rightarrow> Inl err
                  | Inr cs \<Rightarrow> Inr (c # cs)))"

text \<open>Lines 193-197: the new block holds the columns at the valid ids, in that order.\<close>

definition materialize :: "int list \<Rightarrow> Block \<Rightarrow> Block" where
  "materialize ids block = map (\<lambda>r. map (cell r) ids) block"

text \<open>
  Lines 201-208, from index \<open>i\<close> on: the ordering expression is executed, then entry
  \<open>i\<close> of the description is assigned. Reading \<open>_is_asc_order[i]\<close> or
  \<open>_nulls_first[i]\<close> beyond the vector is undefined behaviour in the source.
\<close>

fun fill_sort_description ::
  "bool list \<Rightarrow> bool list \<Rightarrow> Block \<Rightarrow> VExprContext list \<Rightarrow> nat \<Rightarrow> SortDescription
     \<Rightarrow> Status \<times> SortDescription" where
  "fill_sort_description asc nf block [] i d = (OK, d)"
| "fill_sort_description asc nf block (e # es) i d =
     (case e block of
        Inl err \<Rightarrow> (Err err, d)
      | Inr col \<Rightarrow>
          if i < length asc \<and> i < length nf then
            fill_sort_description asc nf block es (Suc i)
              (d[i := \<lparr>column_number = col,
                       direction = (if asc ! i then 1 else - 1),
                       nulls_direction =
                         (if nf ! i then - (if asc ! i then 1 else - 1)
                          else (if asc ! i then 1 else - 1))\<rparr>])
          else (Err UndefinedBehaviour, d))"

definition partial_sort :: "Params \<Rightarrow> VSortNode \<Rightarrow> Block \<Rightarrow> Status \<times> VSortNode \<times> Block" where
  "partial_sort P n block =
     (case (if need_materialize_tuple (vsort_exec_exprs n)
            then (case execute_all (sort_tuple_slot_expr_ctxs (vsort_exec_exprs n)) block of
                    Inl err \<Rightarrow> Inl err
                  | Inr ids \<Rightarrow> Inr (materialize ids block))
            else Inr block) of
        Inl err \<Rightarrow> (Err err, n, block)
      | Inr block1 \<Rightarrow>
          (case fill_sort_description (is_asc_order n) (nulls_first n) block1
                  (lhs_ordering_expr_ctxs (vsort_exec_exprs n)) 0
                  (resize (length (lhs_ordering_expr_ctxs (vsort_exec_exprs n)))
                     (sort_description n)) of
             (Err err, d) \<Rightarrow> (Err err, n\<lparr>sort_description := d\<rparr>, block1)
           | (OK, d) \<Rightarrow>
               (OK, n\<lparr>sort_description := d\<rparr>,
                sort_block (rest_order P) block1 d (offset n + limit n))))"

subsection \<open>The heap of admitted blocks\<close>

text \<open>
  Modelled from the spec: \<open>SortBlockCursor\<close> and its order are not in the sources. The
  spec: the pruning heap is a max-heap of one cursor per admitted run, positioned at the
  run's last row, so that its top is the largest last row. \<open>top()\<close> of an empty
  \<open>std::priority_queue\<close> is undefined behaviour; \<open>heap_top\<close> has no value there.
\<close>

fun heap_top :: "SortBlockCursor list \<Rightarrow> SortBlockCursor option" where
  "heap_top [] = None"
| "heap_top (c # cs) =
     (case heap_top cs of
        None \<Rightarrow> Some c
      | Some m \<Rightarrow>
          if compare_rows (desc c) (last (all_columns m)) (last (all_columns c)) < 0
          then Some c else Some m)"

text \<open>
  Modelled from the spec: \<open>current_greater_or_equal_all\<close> "compares the smallest row
  of self against the largest row of other under the forward order, i.e.
  self.first \<ge> other.last". It is the instance of the parameter \<open>totally_greater\<close>
  that the concrete runs below use.
\<close>

definition current_greater_or_equal_all :: "SortBlockCursor \<Rightarrow> SortBlockCursor \<Rightarrow> bool" where
  "current_greater_or_equal_all c other =
     (case (all_columns c, all_columns other) of
        (x # xs, y # ys) \<Rightarrow> 0 \<le> compare_rows (desc c) x (last (y # ys))
      | _ \<Rightarrow> False)"

subsection \<open>sort\_input\<close>

definition mb_rows :: "MutableBlock \<Rightarrow> nat" where
  "mb_rows m = (case m of Columns b \<Rightarrow> rows b | MovedOut \<Rightarrow> 0)"

definition mb_allocated_bytes :: "Params \<Rightarrow> MutableBlock \<Rightarrow> nat" where
  "mb_allocated_bytes P m = (case m of Columns b \<Rightarrow> allocated_bytes P b | MovedOut \<Rightarrow> 0)"

text \<open>
  Modelled from the spec: \<open>merge\<close> is the buffer's \<open>append\<close>, the column-wise append of all
  rows. The spec gives it no meaning on a buffer whose contents were moved out; appending
  through columns that were moved away is taken as undefined behaviour.
\<close>

definition merge :: "MutableBlock \<Rightarrow> Block \<Rightarrow> Error + MutableBlock" where
  "merge m b = (case m of Columns a \<Rightarrow> Inr (Columns (a @ b)) | MovedOut \<Rightarrow> Inl UndefinedBehaviour)"

definition to_block :: "MutableBlock \<Rightarrow> Block" where
  "to_block m = (case m of Columns b \<Rightarrow> b | MovedOut \<Rightarrow> [])"

datatype Admission = Admitted | Discarded

text \<open>
  Lines 150-173, the admission of a sorted run. In the first top-N branch the block is
  moved into \<open>_sorted_blocks\<close> (line 156) before \<open>block.rows()\<close> is added to the counter
  (line 157). \<open>Discarded\<close> is the \<open>continue\<close> of line 167.
\<close>

definition admit :: "Params \<Rightarrow> VSortNode \<Rightarrow> Block \<Rightarrow> Error + Admission \<times> VSortNode" where
  "admit P n block =
     (if limit n \<noteq> - 1 then
        if int (num_rows_in_block n) < limit n then
          Inr (Admitted,
               n\<lparr>sorted_blocks := sorted_blocks n @ [block],
                 num_rows_in_block := num_rows_in_block n + rows moved_from,
                 block_priority_queue := block_priority_queue n
                   @ [new_SortCursorImpl (last (sorted_blocks n @ [block])) (sort_description n)]\<rparr>)
        else
          (case heap_top (block_priority_queue n) of
             None \<Rightarrow> Inl UndefinedBehaviour
           | Some heap_max \<Rightarrow>
               if \<not> totally_greater P (new_SortCursorImpl block (sort_description n)) heap_max
               then Inr (Admitted,
                         n\<lparr>sorted_blocks := sorted_blocks n @ [block],
                           block_priority_queue := block_priority_queue n
                             @ [new_SortCursorImpl block (sort_description n)]\<rparr>)
               else Inr (Discarded, n))
      else Inr (Admitted, n\<lparr>sorted_blocks := sorted_blocks n @ [block]\<rparr>))"

text \<open>Lines 215-223.\<close>

definition build_merge_tree :: "VSortNode \<Rightarrow> VSortNode" where
  "build_merge_tree n =
     n\<lparr>cursors := cursors n @ map (\<lambda>b. new_SortCursorImpl b (sort_description n)) (sorted_blocks n),
       priority_queue :=
         (if 1 < length (sorted_blocks n)
          then priority_queue n @ cursors n
               @ map (\<lambda>b. new_SortCursorImpl b (sort_description n)) (sorted_blocks n)
          else priority_queue n)\<rparr>"

text \<open>
  Lines 142-178, the body of the outer loop after the accumulation: the run is
  extracted, sorted and admitted; an admitted run is followed by the cancellation
  check, the query state check and the new buffer of line 176, a discarded run by
  none of them.
\<close>

definition sort_run :: "Params \<Rightarrow> RuntimeState \<Rightarrow> VSortNode \<Rightarrow> Status \<times> VSortNode" where
  "sort_run P state n =
     (if 0 < mb_rows (unsorted_block n) then
        (case partial_sort P
                (n\<lparr>total_mem_usage := total_mem_usage n + mb_allocated_bytes P (unsorted_block n),
                   unsorted_block := MovedOut\<rparr>)
                (to_block (unsorted_block n)) of
           (Err e, n1, block) \<Rightarrow> (Err e, n1)
         | (OK, n1, block) \<Rightarrow>
             (case admit P n1 block of
                Inl e \<Rightarrow> (Err e, n1)
              | Inr (Discarded, n2) \<Rightarrow> (OK, n2)
              | Inr (Admitted, n2) \<Rightarrow>
                  if is_cancelled state then (Err Cancelled, n2)
                  else (case query_state state of
                          Err e \<Rightarrow> (Err e, n2)
                        | OK \<Rightarrow> (OK, n2\<lparr>unsorted_block := Columns []\<rparr>))))
      else (OK, n))"

text \<open>
  One call of the child's \<open>get_next_after_projects\<close> yields an error, or a block and
  the eos flag. The child is the list of the results of its successive calls; a child
  whose list is used up reports eos with an empty block.
\<close>

type_synonym ChildResult = "Error + Block \<times> bool"

text \<open>
  Lines 133-179 for one result of the child: the block is merged into the buffer
  (lines 137-139); while the condition of the inner loop (lines 140-141) holds the next
  result is fetched; otherwise the body of the outer loop runs, and the outer loop
  goes on unless eos (line 179). \<open>Inl\<close> is the return of \<open>sort_input\<close>, \<open>Inr\<close> the
  node with which the next result is fetched.
\<close>

definition on_child_result ::
  "Params \<Rightarrow> RuntimeState \<Rightarrow> VSortNode \<Rightarrow> ChildResult \<Rightarrow> Status \<times> VSortNode + VSortNode" where
  "on_child_result P state n r =
     (case r of
        Inl e \<Rightarrow> Inl (Err e, n)
      | Inr (upstream_block, eos) \<Rightarrow>
          (case (if rows upstream_block \<noteq> 0 then merge (unsorted_block n) upstream_block
                 else Inr (unsorted_block n)) of
             Inl e \<Rightarrow> Inl (Err e, n)
           | Inr ub \<Rightarrow>
               if \<not> eos \<and> mb_rows ub < BUFFERED_BLOCK_SIZE P
                  \<and> mb_allocated_bytes P ub < BUFFERED_BLOCK_BYTES P
               then Inr (n\<lparr>unsorted_block := ub\<rparr>)
               else (case sort_run P state (n\<lparr>unsorted_block := ub\<rparr>) of
                       (Err e, n1) \<Rightarrow> Inl (Err e, n1)
                     | (OK, n1) \<Rightarrow> if \<not> eos then Inr n1 else Inl (OK, build_merge_tree n1))))"

text \<open>
  Lines 129-183. Every turn of the inner loop fetches one result of the child, so the
  two nested loops are one recursion over the child's results. With eos set
  \<open>on_child_result\<close> returns, so the second case of the first equation is never taken.
\<close>

fun sort_input :: "Params \<Rightarrow> RuntimeState \<Rightarrow> VSortNode \<Rightarrow> ChildResult list \<Rightarrow> Status \<times> VSortNode" where
  "sort_input P state n [] =
     (case on_child_result P state n (Inr ([], True)) of
        Inl res \<Rightarrow> res
      | Inr n1 \<Rightarrow> (OK, build_merge_tree n1))"
| "sort_input P state n (r # child) =
     (case on_child_result P state n r of
        Inl res \<Rightarrow> res
      | Inr n1 \<Rightarrow> sort_input P state n1 child)"

subsection \<open>merge\_sort\_read\<close>

text \<open>
  Modelled from the spec: \<open>SortCursor\<close> and its order are not in the sources. The spec:
  the merge heap is a min-heap of the run cursors under the forward comparator on their
  current rows. \<open>_priority_queue\<close> holds pointers to the elements of \<open>_cursors\<close>;
  nothing reads \<open>_cursors\<close> after \<open>build_merge_tree\<close>, so an entry of the queue is kept
  as the cursor's value.
\<close>

definition current_row :: "SortCursorImpl \<Rightarrow> Row" where
  "current_row c = (if pos c < length (all_columns c) then all_columns c ! pos c else [])"

fun queue_top :: "SortCursorImpl list \<Rightarrow> SortCursorImpl option" where
  "queue_top [] = None"
| "queue_top (c # cs) =
     (case queue_top cs of
        None \<Rightarrow> Some c
      | Some m \<Rightarrow>
          if compare_rows (desc c) (current_row c) (current_row m) \<le> 0
          then Some c else Some m)"

definition isLast :: "SortCursorImpl \<Rightarrow> bool" where
  "isLast c = (cursor_rows c \<le> pos c + 1)"

definition next_row :: "SortCursorImpl \<Rightarrow> SortCursorImpl" where
  "next_row c = c\<lparr>pos := pos c + 1\<rparr>"

text \<open>
  Lines 236-250, one turn of the loop with the popped cursor \<open>current\<close>: the row is
  inserted or an offset row is skipped, and the cursor is pushed back unless it stood
  on its last row.
\<close>

definition merge_step ::
  "SortCursorImpl \<Rightarrow> SortCursorImpl list \<Rightarrow> int \<Rightarrow> nat \<Rightarrow> Block
     \<Rightarrow> SortCursorImpl list \<times> int \<times> nat \<times> Block" where
  "merge_step current q off merged_rows merged_columns =
     (if \<not> isLast current then remove1 current q @ [next_row current]
      else remove1 current q,
      if off = 0 then off else off - 1,
      if off = 0 then merged_rows + 1 else merged_rows,
      if off = 0 then merged_columns @ [current_row current] else merged_columns)"

text \<open>Lines 235-253: the loop ends on an empty queue or on a full batch (line 252).\<close>

function merge_loop ::
  "nat \<Rightarrow> SortCursorImpl list \<Rightarrow> int \<Rightarrow> nat \<Rightarrow> Block
     \<Rightarrow> SortCursorImpl list \<times> int \<times> nat \<times> Block" where
  "merge_loop bs q off merged_rows merged_columns =
     (case queue_top q of
        None \<Rightarrow> (q, off, merged_rows, merged_columns)
      | Some current \<Rightarrow>
          (case merge_step current q off merged_rows merged_columns of
             (q1, off1, merged_rows1, merged_columns1) \<Rightarrow>
               if merged_rows1 = bs then (q1, off1, merged_rows1, merged_columns1)
               else merge_loop bs q1 off1 merged_rows1 merged_columns1))"
  by pat_completeness auto
termination
proof (relation "measure (\<lambda>(bs, q, off, mr, mc). sum_list (map (\<lambda>c. Suc (cursor_rows c - pos c)) q))")
  show "wf (measure (\<lambda>(bs, q, off, mr, mc). sum_list (map (\<lambda>c. Suc (cursor_rows c - pos c)) q)))"
    by simp
next
  fix bs :: nat and q q1 :: "SortCursorImpl list" and off off1 :: int
    and merged_rows merged_rows1 :: nat and merged_columns merged_columns1 :: Block
    and current y ya
  assume top: "queue_top q = Some current"
    and step: "(q1, y) = merge_step current q off merged_rows merged_columns"
  have mem: "queue_top q' = Some c \<Longrightarrow> c \<in> set q'" for q' c
    by (induction q' arbitrary: c) (auto split: option.splits if_splits)
  have "current \<in> set q" using mem top by blast
  then have "sum_list (map (\<lambda>c. Suc (cursor_rows c - pos c)) q)
      = Suc (cursor_rows current - pos current)
        + sum_list (map (\<lambda>c. Suc (cursor_rows c - pos c)) (remove1 current q))"
    by (rule sum_list_map_remove1)
  moreover have "q1 = (if \<not> isLast current then remove1 current q @ [next_row current]
                       else remove1 current q)"
    using step by (simp add: merge_step_def)
  ultimately show "((bs, q1, off1, merged_rows1, merged_columns1),
           bs, q, off, merged_rows, merged_columns)
          \<in> measure (\<lambda>(bs, q, off, mr, mc). sum_list (map (\<lambda>c. Suc (cursor_rows c - pos c)) q))"
    by (auto simp: isLast_def next_row_def)
qed

text \<open>
  Lines 225-266. \<open>mem_reuse\<close> is \<open>block->mem_reuse()\<close> of the caller's block: the merged
  rows are then appended to the caller's columns, otherwise to empty clones of the
  columns of \<open>_sorted_blocks[0]\<close> that are swapped into the caller's block at the end.
\<close>

definition merge_sort_read ::
  "RuntimeState \<Rightarrow> VSortNode \<Rightarrow> bool \<Rightarrow> Block \<Rightarrow> bool \<Rightarrow> Status \<times> VSortNode \<times> Block \<times> bool" where
  "merge_sort_read state n mem_reuse block eos =
     (case merge_loop (batch_size state) (priority_queue n) (offset n) 0
             (if mem_reuse then block else []) of
        (q, off, merged_rows, merged_columns) \<Rightarrow>
          if merged_rows = 0
          then (OK, n\<lparr>offset := off, priority_queue := q\<rparr>, block, True)
          else (OK, n\<lparr>offset := off, priority_queue := q\<rparr>, merged_columns, eos))"

subsection \<open>get\_next\<close>

text \<open>
  Modelled from the spec: \<open>ExecNode::reached_limit\<close> is not in the sources. The spec: it
  "truncates the last batch so cumulative emission \<le> limit and flips EOS on exact
  reach"; a limit of \<open>-1\<close> is no limit.
\<close>

definition reached_limit :: "VSortNode \<Rightarrow> Block \<Rightarrow> bool \<Rightarrow> VSortNode \<times> Block \<times> bool" where
  "reached_limit n block eos =
     (if limit n \<noteq> - 1 \<and> limit n \<le> num_rows_returned n + int (rows block)
      then (n\<lparr>num_rows_returned :=
                num_rows_returned n
                + int (rows (take (nat (limit n - num_rows_returned n)) block))\<rparr>,
            take (nat (limit n - num_rows_returned n)) block, True)
      else (n\<lparr>num_rows_returned := num_rows_returned n + int (rows block)\<rparr>, block, eos))"

text \<open>Lines 77-80, the row-batch overload.\<close>

definition get_next_row_batch ::
  "RuntimeState \<Rightarrow> VSortNode \<Rightarrow> RowBatch \<Rightarrow> bool \<Rightarrow> Status \<times> VSortNode \<times> RowBatch \<times> bool" where
  "get_next_row_batch state n row_batch eos =
     (Err (NotSupported ''Not Implemented VSortNode::get_next scalar''), n, row_batch, True)"

text \<open>
  Lines 82-102, the block overload. The result is the status, the node, the caller's
  block and the caller's eos flag after the call.
\<close>

definition get_next ::
  "RuntimeState \<Rightarrow> VSortNode \<Rightarrow> bool \<Rightarrow> Block \<Rightarrow> bool \<Rightarrow> Status \<times> VSortNode \<times> Block \<times> bool" where
  "get_next state n mem_reuse block eos =
     (case (if sorted_blocks n = [] then (OK, n, block, True)
            else if length (sorted_blocks n) = 1 then
              (OK,
               n\<lparr>sorted_blocks := (sorted_blocks n)[0 := block]\<rparr>,
               (if offset n \<noteq> 0 then skip_num_rows (offset n) (sorted_blocks n ! 0)
                else sorted_blocks n ! 0),
               True)
            else merge_sort_read state n mem_reuse block eos) of
        (Err e, n1, block1, eos1) \<Rightarrow> (Err e, n1, block1, eos1)
      | (OK, n1, block1, eos1) \<Rightarrow>
          (case reached_limit n1 block1 eos1 of
             (n2, block2, eos2) \<Rightarrow> (OK, n2, block2, eos2)))"

text \<open>
  The blocks a consumer receives: it calls \<open>get_next\<close> with a fresh block until eos or
  an error, at most \<open>calls\<close> times.
\<close>

fun drain :: "nat \<Rightarrow> RuntimeState \<Rightarrow> VSortNode \<Rightarrow> Block" where
  "drain 0 state n = []"
| "drain (Suc calls) state n =
     (case get_next state n False [] False of
        (Err e, n1, block, eos) \<Rightarrow> []
      | (OK, n1, block, eos) \<Rightarrow> if eos then block else block @ drain calls state n1)"

text \<open>A node as the constructor and \<open>prepare\<close> leave it.\<close>

definition new_VSortNode :: "int \<Rightarrow> int \<Rightarrow> bool list \<Rightarrow> bool list \<Rightarrow> SortExecExprs \<Rightarrow> VSortNode" where
  "new_VSortNode off lim asc nf exprs =
     \<lparr>offset = off, limit = lim, num_rows_returned = 0, num_rows_skipped = 0,
      is_asc_order = asc, nulls_first = nf, vsort_exec_exprs = exprs,
      sort_description = [], unsorted_block = Columns [], total_mem_usage = 0,
      sorted_blocks = [], num_rows_in_block = 0, block_priority_queue = [],
      cursors = [], priority_queue = []\<rparr>"

subsection \<open>Concrete collaborators\<close>

text \<open>One ordering expression, a slot reference to column 0, and no materialization.\<close>

definition key0 :: SortExecExprs where
  "key0 = \<lparr>need_materialize_tuple = False, sort_tuple_slot_expr_ctxs = [],
           lhs_ordering_expr_ctxs = [\<lambda>b. Inr 0]\<rparr>"

text \<open>
  The row threshold of the spec (1024 * 1024 rows), a byte threshold of 16 MiB, eight
  bytes a row, a sorter that leaves the rows beyond its hint in descending order, and
  the dominance test of the spec.
\<close>

definition spec_params :: Params where
  "spec_params = \<lparr>BUFFERED_BLOCK_SIZE = 1048576, BUFFERED_BLOCK_BYTES = 16777216,
                  allocated_bytes = (\<lambda>b. 8 * length b), rest_order = rev,
                  totally_greater = current_greater_or_equal_all\<rparr>"

text \<open>The same with a run threshold of one row, so that every upstream row is a run.\<close>

definition one_row_runs :: Params where
  "one_row_runs = spec_params\<lparr>BUFFERED_BLOCK_SIZE := 1\<rparr>"

definition running :: RuntimeState where
  "running = \<lparr>is_cancelled = False, query_state = OK, batch_size = 4096\<rparr>"

definition cancelled :: RuntimeState where
  "cancelled = \<lparr>is_cancelled = True, query_state = OK, batch_size = 4096\<rparr>"

definition asc0 :: SortDescription where
  "asc0 = [\<lparr>column_number = 0, direction = 1, nulls_direction = 1\<rparr>]"

text \<open>
  Two ordering expressions, slot references to columns 0 and 1, and the description of
  a descending key on column 0 with the nulls first.
\<close>

definition key01 :: SortExecExprs where
  "key01 = \<lparr>need_materialize_tuple = False, sort_tuple_slot_expr_ctxs = [],
            lhs_ordering_expr_ctxs = [\<lambda>b. Inr 0, \<lambda>b. Inr 1]\<rparr>"

definition desc0_nulls_first :: SortDescription where
  "desc0_nulls_first = [\<lparr>column_number = 0, direction = - 1, nulls_direction = 1\<rparr>]"

section \<open>Properties\<close>

subsection \<open>The row-batch overload of get\_next\<close>

text \<open>
  Claim C10. For every node, the row-batch overload of \<open>get_next\<close> returns a
  NotSupported status, sets eos to true and returns the node as it was: runs, heaps,
  offset and counters are unchanged.
\<close>

theorem legacy_get_next_not_supported:
  "fst (get_next_row_batch state n row_batch eos)
     = Err (NotSupported ''Not Implemented VSortNode::get_next scalar'')
   \<and> snd (snd (snd (get_next_row_batch state n row_batch eos))) = True
   \<and> fst (snd (get_next_row_batch state n row_batch eos)) = n"
  by (simp add: get_next_row_batch_def)

subsection \<open>The sort description built by partial\_sort\<close>

lemma fill_sort_description_length:
  "fill_sort_description asc nf block es i d = (s, d') \<Longrightarrow> length d' = length d"
  by (induction es arbitrary: i d) (auto split: sum.splits if_splits)

lemma fill_sort_description_entries:
  assumes "fill_sort_description asc nf block es i d = (OK, d')"
    and "length d = i + length es"
    and "j < length d"
  shows "(j < i \<longrightarrow> d' ! j = d ! j)
       \<and> (i \<le> j \<longrightarrow>
            direction (d' ! j) = (if asc ! j then 1 else - 1)
          \<and> nulls_direction (d' ! j) = (if nf ! j then - direction (d' ! j) else direction (d' ! j)))"
  using assms
proof (induction es arbitrary: i d)
  case Nil
  then show ?case by simp
next
  case (Cons e es)
  from Cons.prems(1) obtain col where col: "e block = Inr col"
    and rng: "i < length asc" "i < length nf"
    and rec: "fill_sort_description asc nf block es (Suc i)
               (d[i := \<lparr>column_number = col, direction = (if asc ! i then 1 else - 1),
                        nulls_direction = (if nf ! i then - (if asc ! i then 1 else - 1)
                                           else (if asc ! i then 1 else - 1))\<rparr>]) = (OK, d')"
    by (auto split: sum.splits if_splits)
  let ?d1 = "d[i := \<lparr>column_number = col, direction = (if asc ! i then 1 else - 1),
                        nulls_direction = (if nf ! i then - (if asc ! i then 1 else - 1)
                                           else (if asc ! i then 1 else - 1))\<rparr>]"
  have len: "length ?d1 = Suc i + length es" using Cons.prems(2) by simp
  have j: "j < length ?d1" using Cons.prems(3) by simp
  note ih = Cons.IH[OF rec len j]
  show ?case
  proof (cases "j = i")
    case True
    with ih have "d' ! j = ?d1 ! j" by simp
    also have "?d1 ! j = \<lparr>column_number = col, direction = (if asc ! i then 1 else - 1),
                        nulls_direction = (if nf ! i then - (if asc ! i then 1 else - 1)
                                           else (if asc ! i then 1 else - 1))\<rparr>"
      using True Cons.prems(3) by simp
    finally show ?thesis using True by simp
  next
    case False
    with ih show ?thesis by (auto simp: nth_list_update)
  qed
qed

lemma fill_sort_description_ok_iff:
  "(fst (fill_sort_description asc nf block es i d) = OK)
     = ((\<forall>e\<in>set es. \<exists>c. e block = Inr c)
        \<and> (es \<noteq> [] \<longrightarrow> i + length es \<le> length asc \<and> i + length es \<le> length nf))"
proof (induction es arbitrary: i d)
  case Nil
  then show ?case by simp
next
  case (Cons e es)
  show ?case
  proof (cases "e block")
    case (Inl err)
    then show ?thesis by auto
  next
    case (Inr col)
    show ?thesis
    proof (cases "i < length asc \<and> i < length nf")
      case False
      then show ?thesis using Inr by auto
    next
      case True
      then show ?thesis using Inr Cons.IH by (cases es) auto
    qed
  qed
qed

text \<open>
  Claim C9. \<open>partial_sort\<close> returns OK exactly when the slot expressions (if the tuple
  is materialized) and all ordering expressions succeed and both flag vectors cover the
  sort keys. Whenever it returns OK the description has one entry per sort key, and for
  every sort key \<open>i\<close> the direction is \<open>+1\<close> for ascending and \<open>-1\<close> for descending,
  and \<open>nulls_direction\<close> is \<open>- direction\<close> when \<open>nulls_first[i]\<close> holds and
  \<open>direction\<close> otherwise.
\<close>

theorem nulls_direction_encoding:
  "(fst (partial_sort P n block) = OK)
     = ((need_materialize_tuple (vsort_exec_exprs n) \<longrightarrow>
           (\<exists>ids. execute_all (sort_tuple_slot_expr_ctxs (vsort_exec_exprs n)) block = Inr ids))
        \<and> (\<forall>e\<in>set (lhs_ordering_expr_ctxs (vsort_exec_exprs n)).
              \<exists>c. e (if need_materialize_tuple (vsort_exec_exprs n)
                      then (case execute_all (sort_tuple_slot_expr_ctxs (vsort_exec_exprs n)) block of
                              Inl err \<Rightarrow> block
                            | Inr ids \<Rightarrow> materialize ids block)
                      else block) = Inr c)
        \<and> length (lhs_ordering_expr_ctxs (vsort_exec_exprs n)) \<le> length (is_asc_order n)
        \<and> length (lhs_ordering_expr_ctxs (vsort_exec_exprs n)) \<le> length (nulls_first n))
   \<and> (fst (partial_sort P n block) = OK \<longrightarrow>
        length (sort_description (fst (snd (partial_sort P n block))))
          = length (lhs_ordering_expr_ctxs (vsort_exec_exprs n))
        \<and> (\<forall>i < length (lhs_ordering_expr_ctxs (vsort_exec_exprs n)).
              direction (sort_description (fst (snd (partial_sort P n block))) ! i)
                = (if is_asc_order n ! i then 1 else - 1)
            \<and> nulls_direction (sort_description (fst (snd (partial_sort P n block))) ! i)
                = (if nulls_first n ! i
                   then - direction (sort_description (fst (snd (partial_sort P n block))) ! i)
                   else direction (sort_description (fst (snd (partial_sort P n block))) ! i))))"
proof -
  let ?E = "vsort_exec_exprs n"
  let ?es = "lhs_ordering_expr_ctxs ?E"
  let ?d0 = "resize (length ?es) (sort_description n)"
  let ?b1 = "if need_materialize_tuple ?E
             then (case execute_all (sort_tuple_slot_expr_ctxs ?E) block of
                     Inl err \<Rightarrow> block | Inr ids \<Rightarrow> materialize ids block)
             else block"
  let ?fill = "fill_sort_description (is_asc_order n) (nulls_first n) ?b1 ?es 0 ?d0"
  have status: "fst (partial_sort P n block)
      = (if need_materialize_tuple ?E
            \<and> (\<forall>ids. execute_all (sort_tuple_slot_expr_ctxs ?E) block \<noteq> Inr ids)
         then Err (case execute_all (sort_tuple_slot_expr_ctxs ?E) block of Inl err \<Rightarrow> err)
         else fst ?fill)"
    by (auto simp: partial_sort_def split: sum.splits prod.splits Status.splits)
  have node: "fst (partial_sort P n block) = OK \<Longrightarrow>
      sort_description (fst (snd (partial_sort P n block))) = snd ?fill \<and> fst ?fill = OK"
    by (auto simp: partial_sort_def split: sum.splits prod.splits Status.splits if_splits)
  have A: "(fst (partial_sort P n block) = OK)
     = ((need_materialize_tuple ?E \<longrightarrow>
           (\<exists>ids. execute_all (sort_tuple_slot_expr_ctxs ?E) block = Inr ids))
        \<and> (\<forall>e\<in>set ?es. \<exists>c. e ?b1 = Inr c)
        \<and> length ?es \<le> length (is_asc_order n)
        \<and> length ?es \<le> length (nulls_first n))"
    unfolding status
    using fill_sort_description_ok_iff[of "is_asc_order n" "nulls_first n" ?b1 ?es 0 ?d0]
    by (cases "?es = []") auto
  have B: "length (sort_description (fst (snd (partial_sort P n block)))) = length ?es
        \<and> (\<forall>i < length ?es.
              direction (sort_description (fst (snd (partial_sort P n block))) ! i)
                = (if is_asc_order n ! i then 1 else - 1)
            \<and> nulls_direction (sort_description (fst (snd (partial_sort P n block))) ! i)
                = (if nulls_first n ! i
                   then - direction (sort_description (fst (snd (partial_sort P n block))) ! i)
                   else direction (sort_description (fst (snd (partial_sort P n block))) ! i)))"
    if ok: "fst (partial_sort P n block) = OK"
  proof -
    from node[OF ok] have sd: "sort_description (fst (snd (partial_sort P n block))) = snd ?fill"
      and fok: "fst ?fill = OK" by simp_all
    then have fill: "?fill = (OK, snd ?fill)" by (metis prod.collapse)
    have len0: "length ?d0 = 0 + length ?es" by (simp add: resize_def)
    have len: "length (snd ?fill) = length ?d0"
      using fill by (rule fill_sort_description_length)
    have "direction (snd ?fill ! i) = (if is_asc_order n ! i then 1 else - 1)
        \<and> nulls_direction (snd ?fill ! i)
            = (if nulls_first n ! i then - direction (snd ?fill ! i) else direction (snd ?fill ! i))"
      if "i < length ?es" for i
    proof -
      from that have i: "i < length ?d0" by (simp add: resize_def)
      from fill_sort_description_entries[OF fill len0 i] show ?thesis by simp
    qed
    with len sd show ?thesis by (simp add: resize_def)
  qed
  from A B show ?thesis by blast
qed

theorem nulls_direction_encoding_witness:
  "fst (partial_sort spec_params (new_VSortNode 0 (- 1) [True, False] [True, False] key01)
         [[Some 1, Some 2]]) = OK
   \<and> direction (sort_description (fst (snd (partial_sort spec_params
         (new_VSortNode 0 (- 1) [True, False] [True, False] key01) [[Some 1, Some 2]]))) ! 0) = 1
   \<and> nulls_direction (sort_description (fst (snd (partial_sort spec_params
         (new_VSortNode 0 (- 1) [True, False] [True, False] key01) [[Some 1, Some 2]]))) ! 0) = - 1
   \<and> direction (sort_description (fst (snd (partial_sort spec_params
         (new_VSortNode 0 (- 1) [True, False] [True, False] key01) [[Some 1, Some 2]]))) ! 1) = - 1
   \<and> nulls_direction (sort_description (fst (snd (partial_sort spec_params
         (new_VSortNode 0 (- 1) [True, False] [True, False] key01) [[Some 1, Some 2]]))) ! 1) = - 1"
proof -
  let ?n = "new_VSortNode 0 (- 1) [True, False] [True, False] key01"
  note enc = nulls_direction_encoding[of spec_params ?n "[[Some 1, Some 2]]"]
  have ok: "fst (partial_sort spec_params ?n [[Some 1, Some 2]]) = OK"
    using enc by (simp add: new_VSortNode_def key01_def)
  have k: "length (lhs_ordering_expr_ctxs (vsort_exec_exprs ?n)) = 2"
    by (simp add: new_VSortNode_def key01_def)
  have flags: "is_asc_order ?n = [True, False]" "nulls_first ?n = [True, False]"
    by (simp_all add: new_VSortNode_def)
  from enc ok have all: "\<forall>i < length (lhs_ordering_expr_ctxs (vsort_exec_exprs ?n)).
              direction (sort_description (fst (snd (partial_sort spec_params ?n [[Some 1, Some 2]]))) ! i)
                = (if is_asc_order ?n ! i then 1 else - 1)
            \<and> nulls_direction (sort_description (fst (snd (partial_sort spec_params ?n [[Some 1, Some 2]]))) ! i)
                = (if nulls_first ?n ! i
                   then - direction (sort_description (fst (snd (partial_sort spec_params ?n [[Some 1, Some 2]]))) ! i)
                   else direction (sort_description (fst (snd (partial_sort spec_params ?n [[Some 1, Some 2]]))) ! i))"
    by blast
  from all[rule_format, of 0] all[rule_format, of 1] ok show ?thesis
    unfolding k flags by simp
qed

text \<open>
  Scenario 2 of the spec: one descending key with the nulls first, the blocks
  \<open>[null, 1]\<close> and \<open>[2, null]\<close>; the consumer receives \<open>null, null, 2, 1\<close>.
\<close>

lemma descending_nulls_first_scenario:
  "sort_description (snd (sort_input spec_params running (new_VSortNode 0 (- 1) [False] [True] key0)
       [Inr ([[None], [Some 1]], False), Inr ([[Some 2], [None]], True)])) = desc0_nulls_first
   \<and> drain 1 running (snd (sort_input spec_params running (new_VSortNode 0 (- 1) [False] [True] key0)
       [Inr ([[None], [Some 1]], False), Inr ([[Some 2], [None]], True)]))
      = [[None], [None], [Some 2], [Some 1]]"
  by (simp add: sort_run_def on_child_result_def admit_def partial_sort_def build_merge_tree_def
      new_VSortNode_def key0_def spec_params_def running_def desc0_nulls_first_def resize_def
      default_description_def sort_block_def full_sort_def rows_def compare_key_def cell_def
      native_compare_def merge_def mb_rows_def mb_allocated_bytes_def to_block_def
      new_SortCursorImpl_def get_next_def reached_limit_def skip_num_rows_def)

subsection \<open>The admission counter\<close>

lemma partial_sort_node:
  "partial_sort P n block = (s, n', block') \<Longrightarrow> \<exists>d. n' = n \<or> n' = n\<lparr>sort_description := d\<rparr>"
  by (auto simp: partial_sort_def split: sum.splits prod.splits Status.splits if_splits)

lemma partial_sort_counter:
  assumes "partial_sort P n block = (s, n', block')"
  shows "limit n' = limit n \<and> num_rows_in_block n' = num_rows_in_block n"
  using partial_sort_node[OF assms] by auto

lemma partial_sort_totally_greater:
  "partial_sort (P\<lparr>totally_greater := tg\<rparr>) n block = partial_sort P n block"
  by (simp add: partial_sort_def split: sum.splits prod.splits Status.splits)

lemma admit_counter_zero:
  assumes "0 < limit n" and "num_rows_in_block n = 0"
  shows "admit P n block =
           Inr (Admitted,
                n\<lparr>sorted_blocks := sorted_blocks n @ [block],
                  num_rows_in_block := 0,
                  block_priority_queue := block_priority_queue n
                    @ [new_SortCursorImpl block (sort_description n)]\<rparr>)"
  using assms by (simp add: admit_def moved_from_def rows_def)

lemma admit_counter_unchanged:
  "admit P n block = Inr (a, n') \<Longrightarrow> num_rows_in_block n' = num_rows_in_block n"
  by (auto simp: admit_def moved_from_def rows_def split: if_splits option.splits)

lemma sort_run_counter_zero:
  assumes "0 < limit n" and "num_rows_in_block n = 0"
  shows "sort_run (P\<lparr>totally_greater := tg\<rparr>) state n = sort_run P state n
       \<and> limit (snd (sort_run P state n)) = limit n
       \<and> num_rows_in_block (snd (sort_run P state n)) = 0"
proof (cases "0 < mb_rows (unsorted_block n)")
  case False
  then show ?thesis using assms by (simp add: sort_run_def)
next
  case True
  let ?n0 = "n\<lparr>total_mem_usage := total_mem_usage n + mb_allocated_bytes P (unsorted_block n),
                unsorted_block := MovedOut\<rparr>"
  obtain s n1 block where ps: "partial_sort P ?n0 (to_block (unsorted_block n)) = (s, n1, block)"
    by (cases "partial_sort P ?n0 (to_block (unsorted_block n))") auto
  have inv: "0 < limit n1" "num_rows_in_block n1 = 0"
    using partial_sort_counter[OF ps] assms by simp_all
  have lim: "limit n1 = limit n" using partial_sort_counter[OF ps] by simp
  have bytes: "mb_allocated_bytes (P\<lparr>totally_greater := tg\<rparr>) (unsorted_block n)
                = mb_allocated_bytes P (unsorted_block n)"
    by (simp add: mb_allocated_bytes_def split: MutableBlock.splits)
  show ?thesis
    using True ps lim inv admit_counter_zero[OF inv, where P = P and block = block]
      admit_counter_zero[OF inv, where P = "P\<lparr>totally_greater := tg\<rparr>" and block = block]
    by (cases s) (simp_all add: sort_run_def partial_sort_totally_greater bytes
        split: Status.splits)
qed

lemma build_merge_tree_counter:
  "limit (build_merge_tree n) = limit n
   \<and> num_rows_in_block (build_merge_tree n) = num_rows_in_block n"
  by (simp add: build_merge_tree_def)

lemma on_child_result_counter_zero:
  assumes "0 < limit n" and "num_rows_in_block n = 0"
  shows "on_child_result (P\<lparr>totally_greater := tg\<rparr>) state n r = on_child_result P state n r
       \<and> (case on_child_result P state n r of
            Inl (s, n1) \<Rightarrow> num_rows_in_block n1 = 0
          | Inr n1 \<Rightarrow> 0 < limit n1 \<and> num_rows_in_block n1 = 0)"
proof (cases r)
  case (Inl e)
  then show ?thesis using assms by (simp add: on_child_result_def)
next
  case (Inr be)
  obtain upstream_block eos where be: "be = (upstream_block, eos)" by (cases be)
  show ?thesis
  proof (cases "if rows upstream_block \<noteq> 0 then merge (unsorted_block n) upstream_block
                 else Inr (unsorted_block n)")
    case (Inl e)
    then show ?thesis using Inr be assms by (simp add: on_child_result_def)
  next
    case ub: (Inr ub)
    let ?n1 = "n\<lparr>unsorted_block := ub\<rparr>"
    have inv: "0 < limit ?n1" "num_rows_in_block ?n1 = 0" using assms by simp_all
    note sr = sort_run_counter_zero[OF inv, where P = P and tg = tg and state = state]
    obtain s n2 where run: "sort_run P state ?n1 = (s, n2)" by (cases "sort_run P state ?n1")
    have bytes: "mb_allocated_bytes (P\<lparr>totally_greater := tg\<rparr>) ub = mb_allocated_bytes P ub"
      by (simp add: mb_allocated_bytes_def split: MutableBlock.splits)
    show ?thesis
      using Inr be ub assms sr run build_merge_tree_counter[of n2]
      by (cases s) (auto simp: on_child_result_def bytes)
  qed
qed

lemmas eval_defs = sort_run_def on_child_result_def admit_def partial_sort_def build_merge_tree_def
  new_VSortNode_def key0_def spec_params_def one_row_runs_def running_def cancelled_def asc0_def
  key01_def desc0_nulls_first_def resize_def default_description_def sort_block_def full_sort_def rows_def
  compare_key_def cell_def native_compare_def merge_def mb_rows_def mb_allocated_bytes_def
  to_block_def moved_from_def new_SortCursorImpl_def current_greater_or_equal_all_def
  get_next_def reached_limit_def skip_num_rows_def non_decreasing_def

text \<open>
  Claim C3. In top-N mode with a positive limit and the counter at 0, as in a new
  node: an admission goes through the first branch, which adds the row count of the
  moved-from block, 0, to the counter; no admission, on either branch and in any node,
  changes the counter; so the counter is 0 when \<open>sort_input\<close> returns, with whatever
  status, and \<open>sort_input\<close> does not depend on \<open>totally_greater\<close>, which is never
  called.
\<close>

theorem counter_stays_zero:
  assumes "0 < limit n" and "num_rows_in_block n = 0"
  shows "admit P n block =
           Inr (Admitted,
                n\<lparr>sorted_blocks := sorted_blocks n @ [block],
                  num_rows_in_block := 0,
                  block_priority_queue := block_priority_queue n
                    @ [new_SortCursorImpl block (sort_description n)]\<rparr>)
       \<and> (case admit P m block of
            Inl e \<Rightarrow> True
          | Inr (a, m') \<Rightarrow> num_rows_in_block m' = num_rows_in_block m)
       \<and> num_rows_in_block (snd (sort_input P state n child)) = 0
       \<and> sort_input (P\<lparr>totally_greater := tg\<rparr>) state n child = sort_input P state n child"
proof -
  have loop: "num_rows_in_block (snd (sort_input P state n child)) = 0
       \<and> sort_input (P\<lparr>totally_greater := tg\<rparr>) state n child = sort_input P state n child"
    using assms
  proof (induction child arbitrary: n)
    case Nil
    from on_child_result_counter_zero[OF Nil, where P = P and tg = tg and state = state
        and r = "Inr ([], True)"]
    show ?case
      by (auto simp: build_merge_tree_counter split: sum.splits prod.splits)
  next
    case (Cons r child)
    from on_child_result_counter_zero[OF Cons.prems, where P = P and tg = tg and state = state
        and r = r] Cons.IH
    show ?case
      by (auto split: sum.splits prod.splits)
  qed
  have any: "(case admit P m block of
            Inl e \<Rightarrow> True
          | Inr (a, m') \<Rightarrow> num_rows_in_block m' = num_rows_in_block m)"
    using admit_counter_unchanged[of P m block]
    by (auto split: sum.splits)
  from loop any admit_counter_zero[OF assms] show ?thesis by simp
qed

theorem counter_stays_zero_witness:
  "0 < limit (new_VSortNode 0 1 [True] [False] key0)
   \<and> num_rows_in_block (new_VSortNode 0 1 [True] [False] key0) = 0
   \<and> sorted_blocks (snd (sort_input one_row_runs running (new_VSortNode 0 1 [True] [False] key0)
        [Inr ([[Some 1]], False), Inr ([[Some 2]], True)])) = [[[Some 1]], [[Some 2]]]
   \<and> num_rows_in_block (snd (sort_input one_row_runs running (new_VSortNode 0 1 [True] [False] key0)
        [Inr ([[Some 1]], False), Inr ([[Some 2]], True)])) = 0
   \<and> sort_input (one_row_runs\<lparr>totally_greater := \<lambda>a b. True\<rparr>) running
        (new_VSortNode 0 1 [True] [False] key0) [Inr ([[Some 1]], False), Inr ([[Some 2]], True)]
      = sort_input one_row_runs running
        (new_VSortNode 0 1 [True] [False] key0) [Inr ([[Some 1]], False), Inr ([[Some 2]], True)]"
proof -
  have l: "0 < limit (new_VSortNode 0 1 [True] [False] key0)"
    by (simp add: new_VSortNode_def)
  have c: "num_rows_in_block (new_VSortNode 0 1 [True] [False] key0) = 0"
    by (simp add: new_VSortNode_def)
  have runs: "sorted_blocks (snd (sort_input one_row_runs running (new_VSortNode 0 1 [True] [False] key0)
        [Inr ([[Some 1]], False), Inr ([[Some 2]], True)])) = [[[Some 1]], [[Some 2]]]"
    by (simp add: eval_defs)
  from counter_stays_zero[OF l c, where P = one_row_runs and state = running
      and child = "[Inr ([[Some 1]], False), Inr ([[Some 2]], True)]" and tg = "\<lambda>a b. True"]
    l c runs
  show ?thesis by simp
qed

subsection \<open>The admission rule of the spec\<close>

text \<open>
  Claim C2, which the code does not meet. With \<open>offset = 0\<close>, \<open>limit = 1\<close> and the runs
  \<open>[1]\<close> and \<open>[2]\<close>: when \<open>[2]\<close> arrives one row is held, which is not less than
  \<open>offset + limit\<close>, and the first row of \<open>[2]\<close> is greater-or-equal-all the last row of
  the heap top \<open>[1]\<close>, so the rule of the claim discards \<open>[2]\<close>. \<open>sort_input\<close> admits
  both runs.
\<close>

theorem top_n_admits_dominated_run:
  "sorted_blocks (snd (sort_input one_row_runs running (new_VSortNode 0 1 [True] [False] key0)
      [Inr ([[Some 1]], False), Inr ([[Some 2]], True)])) = [[[Some 1]], [[Some 2]]]
   \<and> current_greater_or_equal_all (new_SortCursorImpl [[Some 2]] asc0) (new_SortCursorImpl [[Some 1]] asc0)"
  by (simp add: eval_defs)

subsection \<open>The limit hint\<close>

text \<open>Without a limit and without an offset the argument is \<open>-1\<close> and the run is fully sorted.\<close>

lemma plain_sort_without_offset:
  assumes "limit n = - 1" and "offset n = 0"
    and "partial_sort P n block = (OK, n', block')"
    and "\<not> need_materialize_tuple (vsort_exec_exprs n)"
  shows "block' = full_sort (sort_description n') block"
  using assms
  by (auto simp: partial_sort_def sort_block_def split: sum.splits prod.splits Status.splits if_splits)

text \<open>
  Claim C4, which the code does not meet. In plain-sort mode (\<open>limit = -1\<close>) with
  \<open>offset = 2\<close>, \<open>partial_sort\<close> calls the sorter with the non-negative hint
  \<open>offset + limit = 1\<close>; the run of four rows is then ordered in its first row only.
\<close>

theorem offset_without_limit_hint:
  "partial_sort spec_params (new_VSortNode 2 (- 1) [True] [False] key0) [[Some 3], [Some 1], [Some 2], [Some 0]]
     = (OK, (new_VSortNode 2 (- 1) [True] [False] key0)\<lparr>sort_description := asc0\<rparr>,
        sort_block rev [[Some 3], [Some 1], [Some 2], [Some 0]] asc0 1)
   \<and> sort_block rev [[Some 3], [Some 1], [Some 2], [Some 0]] asc0 1 = [[Some 0], [Some 3], [Some 2], [Some 1]]
   \<and> \<not> non_decreasing asc0 [[Some 0], [Some 3], [Some 2], [Some 1]]"
  by (simp add: eval_defs)

subsection \<open>The emitted rows\<close>

text \<open>
  Claim C1, which the code does not meet. With \<open>offset = 2\<close> and no limit the single
  run \<open>[3, 1, 2, 0]\<close> is sorted under the hint 1, its first two rows are skipped and
  the consumer receives the rows \<open>2, 1\<close>, which are not in non-decreasing order.
\<close>

theorem offset_without_limit_unsorted:
  "drain 1 running (snd (sort_input spec_params running (new_VSortNode 2 (- 1) [True] [False] key0)
       [Inr ([[Some 3], [Some 1], [Some 2], [Some 0]], True)])) = [[Some 2], [Some 1]]
   \<and> \<not> non_decreasing asc0 [[Some 2], [Some 1]]"
  by (simp add: eval_defs)

text \<open>
  Claim C5, which the code does not meet at \<open>L = 0\<close>. With \<open>offset = 0\<close>, \<open>limit = 0\<close>
  and one upstream row the test of line 155 fails, and line 163 takes the top of the
  empty heap of admitted blocks: the build ends in undefined behaviour, where the
  operator without a limit emits the row and \<open>take 0\<close> of it is the empty output.
\<close>

theorem limit_zero_undefined:
  "fst (sort_input spec_params running (new_VSortNode 0 0 [True] [False] key0) [Inr ([[Some 1]], True)])
     = Err UndefinedBehaviour
   \<and> drain 1 running (snd (sort_input spec_params running (new_VSortNode 0 (- 1) [True] [False] key0)
        [Inr ([[Some 1]], True)])) = [[Some 1]]"
  by (simp add: eval_defs)

subsection \<open>The run buffer and the cancellation check\<close>

text \<open>
  The nodes a build can reach from a new node: the counter is 0 (see above), and when
  the limit is neither \<open>-1\<close> nor positive nothing was pushed on the heap of admitted
  blocks. The buffer is a \<open>MutableBlock\<close> with its columns at the head of the loop.
\<close>

lemma partial_sort_fields:
  assumes "partial_sort P n block = (s, n', block')"
  shows "limit n' = limit n \<and> num_rows_in_block n' = num_rows_in_block n
       \<and> block_priority_queue n' = block_priority_queue n
       \<and> unsorted_block n' = unsorted_block n"
  using partial_sort_node[OF assms] by auto

lemma admit_reachable:
  assumes "num_rows_in_block n = 0"
    and "limit n = - 1 \<or> 0 < limit n \<or> block_priority_queue n = []"
    and "admit P n block = Inr (a, n')"
  shows "a = Admitted \<and> num_rows_in_block n' = 0 \<and> limit n' = limit n
       \<and> (limit n' = - 1 \<or> 0 < limit n' \<or> block_priority_queue n' = [])
       \<and> unsorted_block n' = unsorted_block n"
  using assms
  by (auto simp: admit_def moved_from_def rows_def split: if_splits option.splits)






text \<open>
  In such a node, with the query cancelled and a run in the buffer, the turn of the
  loop that extracts the run does not return OK: with the limit \<open>-1\<close> or positive the
  run is admitted and line 174 is reached unless the sort failed.
\<close>

lemma cancelled_run_not_ok:
  assumes "num_rows_in_block n = 0"
    and "limit n = - 1 \<or> 0 < limit n \<or> block_priority_queue n = []"
    and "is_cancelled state"
    and "0 < mb_rows (unsorted_block n)"
  shows "fst (sort_run P state n) \<noteq> OK"
proof -
  let ?n0 = "n\<lparr>total_mem_usage := total_mem_usage n + mb_allocated_bytes P (unsorted_block n),
                unsorted_block := MovedOut\<rparr>"
  obtain s n1 block where ps: "partial_sort P ?n0 (to_block (unsorted_block n)) = (s, n1, block)"
    by (cases "partial_sort P ?n0 (to_block (unsorted_block n))") auto
  note f = partial_sort_fields[OF ps]
  have c1: "num_rows_in_block n1 = 0" using f assms(1) by simp
  have l1: "limit n1 = - 1 \<or> 0 < limit n1 \<or> block_priority_queue n1 = []" using f assms(2) by simp
  show ?thesis
  proof (cases s)
    case (Err e)
    then show ?thesis using assms(4) ps by (simp add: sort_run_def)
  next
    case OK
    show ?thesis
    proof (cases "admit P n1 block")
      case (Inl e)
      then show ?thesis using assms(4) ps OK by (simp add: sort_run_def)
    next
      case (Inr an)
      obtain a n2 where an: "an = (a, n2)" by (cases an)
      from admit_reachable[OF c1 l1 Inr[unfolded an]] have "a = Admitted" by simp
      then show ?thesis using assms(3,4) ps OK Inr an by (simp add: sort_run_def)
    qed
  qed
qed

text \<open>
  Claim C7, which the code does not meet. With \<open>limit = 0\<close> in a new node and the
  query cancelled, the build extracts the run \<open>[2]\<close>, the test of line 155 fails and
  line 163 takes the top of the empty heap of admitted blocks before the cancellation
  check of line 174 is reached: the build that extracted a run after the cancellation
  does not return the cancellation error.
\<close>

theorem limit_zero_no_cancellation_error:
  "is_cancelled cancelled
   \<and> fst (sort_input spec_params cancelled (new_VSortNode 0 0 [True] [False] key0)
        [Inr ([[Some 2]], True)]) = Err UndefinedBehaviour"
  by (simp add: eval_defs)

subsection \<open>The single run\<close>

text \<open>
  Claim C8. When \<open>_sorted_blocks\<close> holds exactly one run, \<open>get_next\<close> returns OK with
  eos set on that call; the caller's block holds the run without its first \<open>offset\<close>
  rows, cut to the limit by \<open>reached_limit\<close>; the run's place in \<open>_sorted_blocks\<close> holds
  the caller's former block (the swap); the merge heap, the cursors and the offset
  are untouched, and the rows delivered do not depend on the merge heap.
\<close>

theorem single_run_fast_path:
  assumes "length (sorted_blocks n) = 1"
  shows "(case get_next state n mem_reuse block eos of
            (s, n', block', eos') \<Rightarrow>
              s = OK \<and> eos' = True
            \<and> block' = fst (snd (reached_limit n (skip_num_rows (offset n) (sorted_blocks n ! 0)) True))
            \<and> sorted_blocks n' = [block]
            \<and> priority_queue n' = priority_queue n \<and> cursors n' = cursors n
            \<and> offset n' = offset n)
       \<and> fst (snd (snd (get_next state (n\<lparr>priority_queue := q\<rparr>) mem_reuse block eos)))
           = fst (snd (snd (get_next state n mem_reuse block eos)))"
proof -
  from assms obtain run where run: "sorted_blocks n = [run]"
    by (cases "sorted_blocks n") auto
  show ?thesis
    by (simp add: get_next_def run reached_limit_def skip_num_rows_def)
qed

theorem single_run_fast_path_witness:
  "length (sorted_blocks (snd (sort_input spec_params running (new_VSortNode 1 2 [True] [False] key0)
       [Inr ([[Some 3], [Some 1], [Some 2]], True)]))) = 1
   \<and> fst (get_next running (snd (sort_input spec_params running (new_VSortNode 1 2 [True] [False] key0)
       [Inr ([[Some 3], [Some 1], [Some 2]], True)])) False [] False) = OK
   \<and> snd (snd (get_next running (snd (sort_input spec_params running (new_VSortNode 1 2 [True] [False] key0)
       [Inr ([[Some 3], [Some 1], [Some 2]], True)])) False [] False)) = ([[Some 2], [Some 3]], True)"
proof -
  have one: "length (sorted_blocks (snd (sort_input spec_params running
       (new_VSortNode 1 2 [True] [False] key0) [Inr ([[Some 3], [Some 1], [Some 2]], True)]))) = 1"
    by (simp add: eval_defs)
  from single_run_fast_path[OF one, where state = running and mem_reuse = False
      and block = "[]" and eos = False and q = "[]"] one
  show ?thesis
    by (simp add: eval_defs split: prod.splits)
qed

end
